theory Spec2Isabelle
  imports Complex_Main "HOL-Library.Multiset"
begin

section \<open>Data model\<close>

text \<open>
  The types of \<^verbatim>\<open>@/types/database\<close> as the two source files use them. A JavaScript
  number that holds a score or a weight is a \<^typ>\<open>real\<close> (under the default weights every
  value is a small multiple of one half, which a double holds exactly). A number of
  servings is a \<^typ>\<open>real\<close> too: nothing in the source keeps it whole, and a fraction such
  as one half is stored as it is (\<^verbatim>\<open>NaN\<close> has no counterpart here). The numbers handed to
  \<^verbatim>\<open>slice\<close> (meals per week, \<^verbatim>\<open>count\<close>, \<^verbatim>\<open>limit\<close>) are taken whole, as \<^typ>\<open>int\<close>.
  A property the code reads with \<^verbatim>\<open>?.\<close>, \<^verbatim>\<open>??\<close> or \<^verbatim>\<open>||\<close> is an option.
  Field names: \<^verbatim>\<open>Recipe.id\<close> is \<open>recipe_id\<close>, \<^verbatim>\<open>Tag.id\<close> is \<open>tag_ident\<close>,
  \<^verbatim>\<open>Tag.type\<close> is \<open>tag_type\<close>, \<^verbatim>\<open>MealPlanItem.id\<close> is \<open>meal_id\<close>.
\<close>

record Recipe =
  recipe_id :: string
  recipe_name :: string
  description :: string
  image_url :: "string option"
  prep_time :: int
  cook_time :: int
  total_time :: "int option"
  default_servings :: "real option"
  recipe_created_at :: string
  tagIds :: "string list option"

record Tag =
  tag_ident :: string
  tag_name :: string
  tag_type :: string

record PreferenceTag =
  tag_id :: string
  priority :: nat

record UserPreferences =
  meals_per_week :: "int option"
  serves_per_meal :: "real option"
  user_goals :: "string list option"
  user_preference_tags :: "PreferenceTag list option"

record ScoreBreakdown =
  preferenceTagMatches :: real
  goalAlignment :: real
  diversityBonus :: real
  recencyPenalty :: real
  total_score :: real

text \<open>\<^verbatim>\<open>ScoredRecipe extends RecipeWithTags\<close>: the spread \<^verbatim>\<open>...recipe\<close> is the field \<open>scored\<close>.\<close>

record ScoredRecipe =
  scored :: Recipe
  score :: real
  scoreBreakdown :: ScoreBreakdown
  matchedTagIds :: "string list"
  matchedGoals :: "string list"

record Weights =
  w_preferenceTag :: real
  w_goalAlignment :: real
  w_diversity :: real
  w_recency :: real

record RecommendationConfig =
  weights :: Weights
  diversityTagTypes :: "string list option"
  recencyWindowDays :: "int option"
  minimumScore :: "real option"

definition DEFAULT_CONFIG :: RecommendationConfig where
  "DEFAULT_CONFIG =
     \<lparr> weights = \<lparr> w_preferenceTag = 1, w_goalAlignment = 2, w_diversity = 1 / 2,
                    w_recency = - (1 / 2) \<rparr>,
       diversityTagTypes = Some [''cuisine'', ''protein''],
       recencyWindowDays = Some 7,
       minimumScore = Some 0 \<rparr>"

record ScoreContext =
  recentRecipeIds :: "string list"
  currentMealPlanRecipeIds :: "string list"

record RecommendationOptions =
  opt_count :: int
  opt_excludeRecipeIds :: "string list option"
  opt_recentRecipeIds :: "string list option"
  opt_currentMealPlanRecipeIds :: "string list option"

section \<open>JavaScript helpers\<close>

text \<open>\<^verbatim>\<open>xs?.length\<close> used as a condition: true for a present, non-empty array.\<close>

definition has_length :: "'a list option \<Rightarrow> bool" where
  "has_length xs = (case xs of None \<Rightarrow> False | Some ys \<Rightarrow> ys \<noteq> [])"

text \<open>\<^verbatim>\<open>xs || []\<close> on an optional array.\<close>

definition or_empty :: "'a list option \<Rightarrow> 'a list" where
  "or_empty xs = (case xs of None \<Rightarrow> [] | Some ys \<Rightarrow> ys)"

text \<open>
  \<^verbatim>\<open>xs.slice(0, e)\<close> for an integer \<open>e\<close>: a negative end counts from the end of the
  array, and the end is clamped to the length.
\<close>

definition js_slice0 :: "'a list \<Rightarrow> int \<Rightarrow> 'a list" where
  "js_slice0 xs e =
     (let n = int (length xs);
          fin = (if e < 0 then max (n + e) 0 else min e n)
      in take (nat fin) xs)"

text \<open>
  \<^verbatim>\<open>a || d\<close> on an optional number: \<^verbatim>\<open>undefined\<close> and \<^verbatim>\<open>0\<close> are falsy, every other
  number, a fraction or a negative one too, is kept.
\<close>

definition num_or :: "real option \<Rightarrow> real \<Rightarrow> real" where
  "num_or a d = (case a of None \<Rightarrow> d | Some v \<Rightarrow> if v = 0 then d else v)"

section \<open>Scoring engine\<close>

text \<open>
  Step 1 of \<^verbatim>\<open>scoreRecipe\<close>: the \<^verbatim>\<open>forEach\<close> over the recipe's tag identifiers,
  with the running sum and the matched identifiers as the accumulator.
\<close>

fun scorePreferenceTags ::
  "RecommendationConfig \<Rightarrow> PreferenceTag list \<Rightarrow> string list \<Rightarrow> real \<times> string list
     \<Rightarrow> real \<times> string list" where
  "scorePreferenceTags cfg prefs [] acc = acc"
| "scorePreferenceTags cfg prefs (tagId # rest) (s, m) =
     scorePreferenceTags cfg prefs rest
       (if find (\<lambda>pref. tag_id pref = tagId) prefs \<noteq> None
        then (s + w_preferenceTag (weights cfg), m @ [tagId])
        else (s, m))"

text \<open>
  Step 2: the \<^verbatim>\<open>forEach\<close> over the goals, \<open>n\<close> the length of the goal list and
  \<open>index\<close> the position of the head of the remaining goals.
\<close>

fun scoreGoals ::
  "RecommendationConfig \<Rightarrow> Tag list \<Rightarrow> nat \<Rightarrow> nat \<Rightarrow> string list \<Rightarrow> real \<times> string list
     \<Rightarrow> real \<times> string list" where
  "scoreGoals cfg recipeTags n index [] acc = acc"
| "scoreGoals cfg recipeTags n index (goalType # rest) (s, m) =
     scoreGoals cfg recipeTags n (Suc index) rest
       (if filter (\<lambda>tag. tag_type tag = goalType) recipeTags \<noteq> []
        then (s + (real n - real index) * w_goalAlignment (weights cfg), m @ [goalType])
        else (s, m))"

definition calculateDiversityBonus ::
  "RecommendationConfig \<Rightarrow> Recipe \<Rightarrow> string list \<Rightarrow> Tag list \<Rightarrow> real" where
  "calculateDiversityBonus cfg recipe planIds tags =
     (if \<not> has_length (tagIds recipe) \<or> \<not> has_length (diversityTagTypes cfg) then 0
      else w_diversity (weights cfg))"

definition preferencePart ::
  "RecommendationConfig \<Rightarrow> Recipe \<Rightarrow> UserPreferences \<Rightarrow> real \<times> string list" where
  "preferencePart cfg recipe preferences =
     (case tagIds recipe of
        None \<Rightarrow> (0, [])
      | Some ids \<Rightarrow>
          if has_length (user_preference_tags preferences)
          then scorePreferenceTags cfg (or_empty (user_preference_tags preferences)) ids (0, [])
          else (0, []))"

definition goalPart ::
  "RecommendationConfig \<Rightarrow> Recipe \<Rightarrow> UserPreferences \<Rightarrow> Tag list \<Rightarrow> real \<times> string list" where
  "goalPart cfg recipe preferences tags =
     (case tagIds recipe of
        None \<Rightarrow> (0, [])
      | Some ids \<Rightarrow>
          if has_length (user_goals preferences) \<and> tags \<noteq> []
          then scoreGoals cfg (filter (\<lambda>tag. tag_ident tag \<in> set ids) tags)
                 (length (or_empty (user_goals preferences))) 0
                 (or_empty (user_goals preferences)) (0, [])
          else (0, []))"

definition scoreRecipe ::
  "RecommendationConfig \<Rightarrow> Recipe \<Rightarrow> UserPreferences \<Rightarrow> Tag list \<Rightarrow> ScoreContext
     \<Rightarrow> ScoredRecipe" where
  "scoreRecipe cfg recipe preferences tags ctx =
     (let (pm, mt) = preferencePart cfg recipe preferences;
          (ga, mg) = goalPart cfg recipe preferences tags;
          db = (if currentMealPlanRecipeIds ctx \<noteq> []
                then calculateDiversityBonus cfg recipe (currentMealPlanRecipeIds ctx) tags
                else 0);
          rp = (if recipe_id recipe \<in> set (recentRecipeIds ctx)
                then w_recency (weights cfg) else 0);
          tot = pm + ga + db + rp
      in \<lparr> scored = recipe, score = tot,
           scoreBreakdown = \<lparr> preferenceTagMatches = pm, goalAlignment = ga,
                              diversityBonus = db, recencyPenalty = rp, total_score = tot \<rparr>,
           matchedTagIds = mt, matchedGoals = mg \<rparr>)"

text \<open>
  The two tests of the scoring loops by name: \<^verbatim>\<open>goalTags.length > 0\<close> for a goal type,
  and the \<^verbatim>\<open>find\<close> over the user's preference tags.
\<close>

definition hasTagOfType :: "Recipe \<Rightarrow> Tag list \<Rightarrow> string \<Rightarrow> bool" where
  "hasTagOfType recipe tags goalType =
     (filter (\<lambda>tag. tag_type tag = goalType)
        (filter (\<lambda>tag. tag_ident tag \<in> set (or_empty (tagIds recipe))) tags) \<noteq> [])"

definition isPreferredTag :: "UserPreferences \<Rightarrow> string \<Rightarrow> bool" where
  "isPreferredTag preferences tagId =
     (find (\<lambda>pref. tag_id pref = tagId) (or_empty (user_preference_tags preferences)) \<noteq> None)"

section \<open>Recommendation selector\<close>

text \<open>The candidate filter: the first step of \<^verbatim>\<open>getRecommendations\<close>.\<close>

definition availableRecipes :: "Recipe list \<Rightarrow> RecommendationOptions \<Rightarrow> Recipe list" where
  "availableRecipes recipes options =
     (if has_length (opt_excludeRecipeIds options)
      then filter (\<lambda>r. recipe_id r \<notin> set (or_empty (opt_excludeRecipeIds options))) recipes
      else recipes)"

definition scoredRecipes ::
  "RecommendationConfig \<Rightarrow> Recipe list \<Rightarrow> UserPreferences \<Rightarrow> Tag list \<Rightarrow> RecommendationOptions
     \<Rightarrow> ScoredRecipe list" where
  "scoredRecipes cfg recipes preferences tags options =
     map (\<lambda>recipe. scoreRecipe cfg recipe preferences tags
            \<lparr> recentRecipeIds = or_empty (opt_recentRecipeIds options),
              currentMealPlanRecipeIds = or_empty (opt_currentMealPlanRecipeIds options) \<rparr>)
         (availableRecipes recipes options)"

text \<open>
  The minimum-score step. \<^verbatim>\<open>r.score >= undefined\<close> is false, so without a configured
  minimum nothing passes.
\<close>

definition passesMinimum :: "RecommendationConfig \<Rightarrow> ScoredRecipe \<Rightarrow> bool" where
  "passesMinimum cfg r = (case minimumScore cfg of None \<Rightarrow> False | Some m \<Rightarrow> score r \<ge> m)"

definition validRecipes ::
  "RecommendationConfig \<Rightarrow> Recipe list \<Rightarrow> UserPreferences \<Rightarrow> Tag list \<Rightarrow> RecommendationOptions
     \<Rightarrow> ScoredRecipe list" where
  "validRecipes cfg recipes preferences tags options =
     filter (passesMinimum cfg) (scoredRecipes cfg recipes preferences tags options)"

text \<open>
  \<^verbatim>\<open>Array.prototype.sort\<close> with a comparator that answers \<^verbatim>\<open>Math.random() - 0.5\<close> on
  near ties is not a function of the list: the order it leaves is the engine's and the
  random source's choice. The outcome of one call is the parameter \<open>srt\<close>; all that the
  language promises of it is that it rearranges its argument.
\<close>

definition rearranges :: "('a list \<Rightarrow> 'a list) \<Rightarrow> bool" where
  "rearranges srt = (\<forall>xs. mset (srt xs) = mset xs)"

definition getRecommendations ::
  "RecommendationConfig \<Rightarrow> (ScoredRecipe list \<Rightarrow> ScoredRecipe list) \<Rightarrow> Recipe list
     \<Rightarrow> UserPreferences \<Rightarrow> Tag list \<Rightarrow> RecommendationOptions \<Rightarrow> ScoredRecipe list" where
  "getRecommendations cfg srt recipes preferences tags options =
     js_slice0 (srt (validRecipes cfg recipes preferences tags options)) (opt_count options)"

section \<open>The recommendation hook\<close>

text \<open>
  \<^verbatim>\<open>getRandomRecommendations\<close>: the shuffle is \<^verbatim>\<open>sort(() => Math.random() - 0.5)\<close>, its
  outcome the parameter \<open>shuffle\<close>; a missing \<^verbatim>\<open>excludeRecipeIds\<close> defaults to the
  empty array.
\<close>

definition getRandomRecommendations ::
  "(Recipe list \<Rightarrow> Recipe list) \<Rightarrow> Recipe list \<Rightarrow> int \<Rightarrow> string list option \<Rightarrow> Recipe list" where
  "getRandomRecommendations shuffle recipes k excludeIds =
     js_slice0 (shuffle (filter (\<lambda>r. recipe_id r \<notin> set (or_empty excludeIds)) recipes)) k"

definition zeroScored :: "Recipe \<Rightarrow> ScoredRecipe" where
  "zeroScored r =
     \<lparr> scored = r, score = 0,
       scoreBreakdown = \<lparr> preferenceTagMatches = 0, goalAlignment = 0, diversityBonus = 0,
                          recencyPenalty = 0, total_score = 0 \<rparr>,
       matchedTagIds = [], matchedGoals = [] \<rparr>"

text \<open>What the providers hand to the hook.\<close>

record Env =
  env_preferences :: "UserPreferences option"
  env_recipes :: "Recipe list"
  env_tags :: "Tag list"
  env_config :: RecommendationConfig

text \<open>
  The random choices of one call: the two sort outcomes and the identifiers
  \<^verbatim>\<open>generateMealId\<close> returns, by position.
\<close>

record Oracle =
  sortScored :: "ScoredRecipe list \<Rightarrow> ScoredRecipe list"
  shuffleRecipes :: "Recipe list \<Rightarrow> Recipe list"
  mealIds :: "nat \<Rightarrow> string"

text \<open>\<^verbatim>\<open>useRecipeRecommendations().getRecommendations\<close>.\<close>

definition hook_getRecommendations ::
  "Env \<Rightarrow> Oracle \<Rightarrow> UserPreferences \<Rightarrow> RecommendationOptions \<Rightarrow> ScoredRecipe list" where
  "hook_getRecommendations env orc preferences options =
     (if env_recipes env = [] then []
      else if \<not> has_length (user_preference_tags preferences)
              \<and> \<not> has_length (user_goals preferences)
      then map zeroScored
             (getRandomRecommendations (shuffleRecipes orc) (env_recipes env)
                (opt_count options) (opt_excludeRecipeIds options))
      else getRecommendations (env_config env) (sortScored orc) (env_recipes env) preferences
             (env_tags env) options)"

section \<open>Meal-plan provider\<close>

datatype PlanStatus = Draft | Confirmed | Completed

record MealPlanItem =
  meal_id :: string
  meal_recipe :: Recipe
  servings :: real
  status :: "PlanStatus option"
  week_id :: "string option"
  user_id :: "string option"
  created_at :: "string option"
  updated_at :: "string option"

text \<open>
  The provider's state, and the calls of \<^verbatim>\<open>console.error\<close> (label and message) in the
  order they were made. The \<^verbatim>\<open>__DEV__\<close> calls of \<^verbatim>\<open>console.log\<close> are left out.

  React keeps two plans apart. \<open>currentMealPlan\<close> is the state itself: what the next state
  updater receives as \<^verbatim>\<open>prev\<close>. \<open>renderedPlan\<close> is the plan of the last render: what the
  callbacks created in that render read when they mention \<^verbatim>\<open>currentMealPlan\<close>. The two
  agree after a render and differ between a state update and the render that follows it.
\<close>

record ProviderState =
  currentMealPlan :: "MealPlanItem list"
  renderedPlan :: "MealPlanItem list"
  loading :: bool
  error :: "string option"
  initialized :: bool
  errorLog :: "(string \<times> string) list"

definition initialState :: ProviderState where
  "initialState =
     \<lparr> currentMealPlan = [], renderedPlan = [], loading = False, error = None,
       initialized = False, errorLog = [] \<rparr>"

definition newMealItem :: "string \<Rightarrow> Recipe \<Rightarrow> real \<Rightarrow> MealPlanItem" where
  "newMealItem i r n =
     \<lparr> meal_id = i, meal_recipe = r, servings = n, status = None, week_id = None,
       user_id = None, created_at = None, updated_at = None \<rparr>"

text \<open>
  \<^verbatim>\<open>generateInitialMealPlan\<close>. The plan it reads is the one of the render it was created
  in; the plan it sets replaces the state. Nothing in its \<^verbatim>\<open>try\<close> block throws in this
  model, so its \<^verbatim>\<open>catch\<close> has no branch.
\<close>

definition generateInitialMealPlan :: "Env \<Rightarrow> Oracle \<Rightarrow> ProviderState \<Rightarrow> ProviderState" where
  "generateInitialMealPlan env orc st =
     (case env_preferences env of
        None \<Rightarrow> st
      | Some userPreferences \<Rightarrow>
          (let mealsToSelect = (case meals_per_week userPreferences of None \<Rightarrow> 4 | Some m \<Rightarrow> m);
               currentIds = map (\<lambda>m. recipe_id (meal_recipe m)) (renderedPlan st);
               recommendations =
                 hook_getRecommendations env orc userPreferences
                   \<lparr> opt_count = mealsToSelect, opt_excludeRecipeIds = Some currentIds,
                     opt_recentRecipeIds = None,
                     opt_currentMealPlanRecipeIds = Some currentIds \<rparr>;
               mealPlanItems =
                 map (\<lambda>(i, r). newMealItem (mealIds orc i) (scored r)
                        (num_or (serves_per_meal userPreferences)
                           (num_or (default_servings (scored r)) 1)))
                     (enumerate 0 recommendations)
           in st \<lparr> currentMealPlan := mealPlanItems, initialized := True,
                   loading := False, error := None \<rparr>))"

text \<open>
  \<^verbatim>\<open>addMealToPlan\<close> looks for the recipe in \<^verbatim>\<open>currentMealPlan\<close>, the plan of the
  render the callback was created in, and appends to \<open>prev\<close>, the plan the state updater
  receives. \<open>newId\<close> is what \<^verbatim>\<open>generateMealId\<close> returns.
\<close>

definition addMealToPlan ::
  "UserPreferences option \<Rightarrow> MealPlanItem list \<Rightarrow> Recipe \<Rightarrow> real option \<Rightarrow> string
     \<Rightarrow> MealPlanItem list \<Rightarrow> MealPlanItem list" where
  "addMealToPlan userPreferences rendered r n newId prev =
     (if find (\<lambda>meal. recipe_id (meal_recipe meal) = recipe_id r) rendered \<noteq> None then prev
      else prev @
           [newMealItem newId r
              (num_or n
                 (num_or (case userPreferences of None \<Rightarrow> None | Some p \<Rightarrow> serves_per_meal p)
                    (num_or (default_servings r) 1)))])"

definition removeMealFromPlan :: "string \<Rightarrow> MealPlanItem list \<Rightarrow> MealPlanItem list" where
  "removeMealFromPlan mealId prev = filter (\<lambda>meal. meal_id meal \<noteq> mealId) prev"

definition updateMealServings :: "string \<Rightarrow> real \<Rightarrow> MealPlanItem list \<Rightarrow> MealPlanItem list" where
  "updateMealServings mealId n prev =
     map (\<lambda>meal. if meal_id meal = mealId then meal \<lparr> servings := n \<rparr> else meal) prev"

definition clearMealPlan :: "MealPlanItem list \<Rightarrow> MealPlanItem list" where
  "clearMealPlan prev = []"

text \<open>\<^verbatim>\<open>limit ? plan.slice(0, limit) : plan\<close>: a missing limit and the limit 0 are falsy.\<close>

definition getCurrentMealPlan :: "MealPlanItem list \<Rightarrow> int option \<Rightarrow> MealPlanItem list" where
  "getCurrentMealPlan plan limit =
     (case limit of
        None \<Rightarrow> plan
      | Some l \<Rightarrow> if l = 0 then plan else js_slice0 plan l)"

definition getMealById :: "MealPlanItem list \<Rightarrow> string \<Rightarrow> MealPlanItem option" where
  "getMealById plan mealId = find (\<lambda>meal. meal_id meal = mealId) plan"

definition isMealInPlan :: "MealPlanItem list \<Rightarrow> string \<Rightarrow> bool" where
  "isMealInPlan plan recipeId = list_ex (\<lambda>meal. recipe_id (meal_recipe meal) = recipeId) plan"

definition getTotalServings :: "MealPlanItem list \<Rightarrow> real" where
  "getTotalServings plan = foldl (\<lambda>total meal. total + servings meal) 0 plan"

subsection \<open>Sequences of plan operations\<close>

text \<open>
  One call of a plan operation with its arguments and with what the providers and the
  random source hold at that moment, or a render. Calls with no render between them are
  calls made in one event: they read the same rendered plan.
\<close>

datatype PlanOp =
    Generate Env Oracle
  | Add "UserPreferences option" Recipe "real option" string
  | Remove string
  | UpdateServings string real
  | Clear
  | Render

fun applyOp :: "PlanOp \<Rightarrow> ProviderState \<Rightarrow> ProviderState" where
  "applyOp (Generate env orc) st = generateInitialMealPlan env orc st"
| "applyOp (Add prefs r n newId) st =
     st \<lparr> currentMealPlan :=
            addMealToPlan prefs (renderedPlan st) r n newId (currentMealPlan st) \<rparr>"
| "applyOp (Remove mealId) st =
     st \<lparr> currentMealPlan := removeMealFromPlan mealId (currentMealPlan st) \<rparr>"
| "applyOp (UpdateServings mealId n) st =
     st \<lparr> currentMealPlan := updateMealServings mealId n (currentMealPlan st) \<rparr>"
| "applyOp Clear st = st \<lparr> currentMealPlan := clearMealPlan (currentMealPlan st) \<rparr>"
| "applyOp Render st = st \<lparr> renderedPlan := currentMealPlan st \<rparr>"

fun runOps :: "PlanOp list \<Rightarrow> ProviderState \<Rightarrow> ProviderState" where
  "runOps [] st = st"
| "runOps (op # ops) st = runOps ops (applyOp op st)"

subsection \<open>Loading a week's plan\<close>

text \<open>A row of \<^verbatim>\<open>get_week_meal_plan_with_recipes\<close>.\<close>

record PlanRow =
  row_id :: string
  row_recipe_id :: string
  row_recipe_name :: string
  row_recipe_image_url :: "string option"
  row_recipe_total_time :: "int option"
  row_servings :: real
  row_status :: PlanStatus
  row_week_id :: string
  row_user_id :: string
  row_created_at :: string
  row_updated_at :: string

text \<open>
  What \<^verbatim>\<open>await supabase.rpc(...)\<close> comes back with: the promise rejects with a message, or
  resolves to \<^verbatim>\<open>{ data, error }\<close>.
\<close>

datatype RpcOutcome = Rejected string | Resolved "string option" "PlanRow list option"

definition hydrate :: "Recipe list \<Rightarrow> PlanRow \<Rightarrow> MealPlanItem" where
  "hydrate recipes item =
     (let r = (case find (\<lambda>r. recipe_id r = row_recipe_id item) recipes of
                 Some fullRecipe \<Rightarrow> fullRecipe
               | None \<Rightarrow>
                   \<lparr> recipe_id = row_recipe_id item, recipe_name = row_recipe_name item,
                     description = [], image_url = row_recipe_image_url item, prep_time = 0,
                     cook_time = 0, total_time = row_recipe_total_time item,
                     default_servings = Some 1, recipe_created_at = [], tagIds = Some [] \<rparr>)
      in \<lparr> meal_id = ''saved_'' @ row_id item, meal_recipe = r, servings = row_servings item,
           status = Some (row_status item), week_id = Some (row_week_id item),
           user_id = Some (row_user_id item), created_at = Some (row_created_at item),
           updated_at = Some (row_updated_at item) \<rparr>)"

text \<open>The \<^verbatim>\<open>try\<close> block of \<^verbatim>\<open>getMealPlanForWeek\<close>: \<open>Inl\<close> is the error it throws.\<close>

definition fetchMealPlan :: "Recipe list \<Rightarrow> RpcOutcome \<Rightarrow> string + MealPlanItem list" where
  "fetchMealPlan recipes outcome =
     (case outcome of
        Rejected msg \<Rightarrow> Inl msg
      | Resolved (Some msg) d \<Rightarrow> Inl msg
      | Resolved None None \<Rightarrow> Inr []
      | Resolved None (Some rows) \<Rightarrow> Inr (map (hydrate recipes) rows))"

text \<open>
  \<^verbatim>\<open>getMealPlanForWeek\<close>: its \<^verbatim>\<open>catch\<close> writes the error to the console and returns the
  empty list.
\<close>

definition getMealPlanForWeek ::
  "Recipe list \<Rightarrow> RpcOutcome \<Rightarrow> ProviderState \<Rightarrow> MealPlanItem list \<times> ProviderState" where
  "getMealPlanForWeek recipes outcome st =
     (case fetchMealPlan recipes outcome of
        Inl err \<Rightarrow> ([], st \<lparr> errorLog := errorLog st @ [(''Error fetching meal plan:'', err)] \<rparr>)
      | Inr items \<Rightarrow> (items, st))"

text \<open>
  \<^verbatim>\<open>loadMealPlanForWeek\<close>. Both functions it awaits catch their own errors, so no call
  reaches its \<^verbatim>\<open>catch\<close>; the \<^verbatim>\<open>finally\<close> clears the busy flag.
\<close>

definition loadMealPlanForWeek ::
  "Env \<Rightarrow> Oracle \<Rightarrow> RpcOutcome \<Rightarrow> ProviderState \<Rightarrow> ProviderState" where
  "loadMealPlanForWeek env orc outcome st =
     (let (savedMeals, st1) =
            getMealPlanForWeek (env_recipes env) outcome (st \<lparr> loading := True, error := None \<rparr>);
          st2 = (if savedMeals \<noteq> [] then st1 \<lparr> currentMealPlan := savedMeals \<rparr>
                 else generateInitialMealPlan env orc st1)
      in st2 \<lparr> loading := False \<rparr>)"

text \<open>The two outcomes of the fetch that the fallback is about.\<close>

definition fetchFailed :: "RpcOutcome \<Rightarrow> string option" where
  "fetchFailed outcome =
     (case outcome of
        Rejected msg \<Rightarrow> Some msg
      | Resolved (Some msg) d \<Rightarrow> Some msg
      | Resolved None d \<Rightarrow> None)"

definition fetchedNoRows :: "RpcOutcome \<Rightarrow> bool" where
  "fetchedNoRows outcome =
     (case outcome of
        Rejected msg \<Rightarrow> False
      | Resolved (Some msg) d \<Rightarrow> False
      | Resolved None d \<Rightarrow> or_empty d = [])"

subsection \<open>Conditions on the inputs of a plan operation\<close>

text \<open>The recipe identifiers of a plan, in order.\<close>

definition planRecipeIds :: "MealPlanItem list \<Rightarrow> string list" where
  "planRecipeIds plan = map (\<lambda>m. recipe_id (meal_recipe m)) plan"

text \<open>Both sort outcomes of a call rearrange their argument.\<close>

definition oracleOk :: "Oracle \<Rightarrow> bool" where
  "oracleOk orc = (rearranges (sortScored orc) \<and> rearranges (shuffleRecipes orc))"

text \<open>An optional number of servings that is absent, 0 or at least 1.\<close>

definition numOk :: "real option \<Rightarrow> bool" where
  "numOk a = (case a of None \<Rightarrow> True | Some v \<Rightarrow> v = 0 \<or> 1 \<le> v)"

text \<open>
  The servings a caller hands to an operation are in range: every number of servings that
  reaches \<^verbatim>\<open>generate\<close> or \<^verbatim>\<open>add\<close> is absent, 0 or at least 1, and \<^verbatim>\<open>updateServings\<close> is
  given at least 1.
\<close>

fun servingsInputsOk :: "PlanOp \<Rightarrow> bool" where
  "servingsInputsOk (Generate env orc) =
     (oracleOk orc \<and>
      (case env_preferences env of
         None \<Rightarrow> True
       | Some p \<Rightarrow> numOk (serves_per_meal p)
                  \<and> list_all (\<lambda>r. numOk (default_servings r)) (env_recipes env)))"
| "servingsInputsOk (Add prefs r n newId) =
     (numOk n \<and> numOk (case prefs of None \<Rightarrow> None | Some p \<Rightarrow> serves_per_meal p)
      \<and> numOk (default_servings r))"
| "servingsInputsOk (Remove mealId) = True"
| "servingsInputsOk (UpdateServings mealId n) = (1 \<le> n)"
| "servingsInputsOk Clear = True"
| "servingsInputsOk Render = True"

section \<open>Sample data\<close>

text \<open>A small catalog, taxonomy and preference record on which the results are run.\<close>

definition sample_recipe :: "string \<Rightarrow> string list \<Rightarrow> Recipe" where
  "sample_recipe i ts =
     \<lparr> recipe_id = i, recipe_name = i, description = [], image_url = None, prep_time = 0,
       cook_time = 0, total_time = None, default_servings = Some 2, recipe_created_at = [],
       tagIds = Some ts \<rparr>"

definition sample_tags :: "Tag list" where
  "sample_tags =
     [\<lparr> tag_ident = ''t1'', tag_name = ''Quick'', tag_type = ''time'' \<rparr>,
      \<lparr> tag_ident = ''t2'', tag_name = ''Cheap'', tag_type = ''budget'' \<rparr>,
      \<lparr> tag_ident = ''t3'', tag_name = ''Thai'', tag_type = ''cuisine'' \<rparr>]"

definition sample_preferences :: UserPreferences where
  "sample_preferences =
     \<lparr> meals_per_week = Some 4, serves_per_meal = Some 2,
       user_goals = Some [''time'', ''budget''],
       user_preference_tags = Some [\<lparr> tag_id = ''t3'', priority = 0 \<rparr>] \<rparr>"

definition sample_options :: "int \<Rightarrow> string list \<Rightarrow> string list \<Rightarrow> RecommendationOptions" where
  "sample_options k recent planned =
     \<lparr> opt_count = k, opt_excludeRecipeIds = None, opt_recentRecipeIds = Some recent,
       opt_currentMealPlanRecipeIds = Some planned \<rparr>"

text \<open>A sort outcome that leaves the list as it found it.\<close>

definition keep_order :: "'a list \<Rightarrow> 'a list" where
  "keep_order xs = xs"

definition sample_catalog :: "Recipe list" where
  "sample_catalog =
     [sample_recipe ''r1'' [''t1''], sample_recipe ''r2'' [''t3''], sample_recipe ''r3'' []]"

definition sample_context :: ScoreContext where
  "sample_context = \<lparr> recentRecipeIds = [''r1''], currentMealPlanRecipeIds = [''r9''] \<rparr>"

definition sample_env :: Env where
  "sample_env =
     \<lparr> env_preferences = Some sample_preferences, env_recipes = sample_catalog,
       env_tags = sample_tags, env_config = DEFAULT_CONFIG \<rparr>"

definition sample_ids :: "nat \<Rightarrow> string" where
  "sample_ids i = replicate (Suc i) CHR ''m''"

definition sample_oracle :: Oracle where
  "sample_oracle =
     \<lparr> sortScored = keep_order, shuffleRecipes = keep_order, mealIds = sample_ids \<rparr>"

definition sample_ops :: "PlanOp list" where
  "sample_ops =
     [Generate sample_env sample_oracle, Render,
      Add None (sample_recipe ''r9'' []) (Some 3) ''a1'', Render,
      UpdateServings ''a1'' 5,
      Remove ''m'']"

text \<open>The default configuration with another goal weight.\<close>

definition sample_config :: "real \<Rightarrow> RecommendationConfig" where
  "sample_config w =
     DEFAULT_CONFIG \<lparr> weights := (weights DEFAULT_CONFIG) \<lparr> w_goalAlignment := w \<rparr> \<rparr>"

text \<open>The sample providers for a user who has asked for half a serving per meal.\<close>

definition sample_env_half :: Env where
  "sample_env_half =
     sample_env \<lparr> env_preferences := Some (sample_preferences \<lparr> serves_per_meal := Some (1 / 2) \<rparr>) \<rparr>"

definition sample_plan :: "MealPlanItem list" where
  "sample_plan =
     [newMealItem ''m'' (sample_recipe ''r1'' [''t1'']) 2,
      newMealItem ''mm'' (sample_recipe ''r2'' [''t3'']) 2,
      newMealItem ''mmm'' (sample_recipe ''r3'' []) 2]"

section \<open>Auxiliary facts\<close>

subsection \<open>Slices and sort outcomes\<close>

lemma js_slice0_length: "0 \<le> e \<Longrightarrow> int (length (js_slice0 xs e)) \<le> e"
  by (simp add: js_slice0_def Let_def)

lemma js_slice0_take: "\<exists>k. js_slice0 xs e = take k xs"
  by (auto simp: js_slice0_def Let_def)

lemma js_slice0_subset: "set (js_slice0 xs e) \<subseteq> set xs"
  by (auto simp: js_slice0_def Let_def dest: in_set_takeD)

lemma js_slice0_distinct:
  assumes "distinct (map f xs)"
  shows "distinct (map f (js_slice0 xs e))"
proof -
  obtain k where k: "js_slice0 xs e = take k xs"
    using js_slice0_take by blast
  from assms have "distinct (take k (map f xs))"
    by (rule distinct_take)
  then show ?thesis
    by (simp add: k take_map)
qed

lemma rearranges_set: "rearranges srt \<Longrightarrow> set (srt xs) = set xs"
  by (metis rearranges_def mset_eq_setD)

lemma rearranges_distinct:
  assumes "rearranges srt" "distinct (map f xs)"
  shows "distinct (map f (srt xs))"
proof -
  have "mset (map f (srt xs)) = mset (map f xs)"
    using assms(1) by (simp add: rearranges_def)
  then show ?thesis
    using assms(2) by (metis mset_eq_imp_distinct_iff)
qed

lemma rearranges_keep_order: "rearranges keep_order"
  by (simp add: rearranges_def keep_order_def)

lemma oracleOk_sample: "oracleOk sample_oracle"
  by (simp add: oracleOk_def sample_oracle_def rearranges_keep_order)

subsection \<open>The scoring loops in closed form\<close>

lemma scorePreferenceTags_fst:
  "fst (scorePreferenceTags cfg prefs ts (s, m)) =
     s + w_preferenceTag (weights cfg) *
         real (length (filter (\<lambda>t. find (\<lambda>pref. tag_id pref = t) prefs \<noteq> None) ts))"
  by (induction ts arbitrary: s m) (simp_all add: algebra_simps)

lemma scorePreferenceTags_snd:
  "snd (scorePreferenceTags cfg prefs ts (s, m)) =
     m @ filter (\<lambda>t. find (\<lambda>pref. tag_id pref = t) prefs \<noteq> None) ts"
  by (induction ts arbitrary: s m) simp_all

lemma scoreGoals_fst:
  "fst (scoreGoals cfg rts n i gs (s, m)) =
     s + (\<Sum>k<length gs. if filter (\<lambda>tag. tag_type tag = gs ! k) rts \<noteq> []
                           then (real n - real (i + k)) * w_goalAlignment (weights cfg) else 0)"
proof (induction gs arbitrary: i s m)
  case Nil
  show ?case by simp
next
  case (Cons g gs)
  show ?case
    by (simp add: Cons.IH sum.lessThan_Suc_shift add.assoc add.left_commute
        del: sum.lessThan_Suc cong: if_cong)
qed

lemma preferencePart_fst:
  "tagIds recipe = Some ids \<Longrightarrow>
   fst (preferencePart cfg recipe preferences) =
     (if has_length (user_preference_tags preferences)
      then w_preferenceTag (weights cfg) * real (length (filter (isPreferredTag preferences) ids))
      else 0)"
  by (simp add: preferencePart_def scorePreferenceTags_fst isPreferredTag_def [abs_def])

lemma hasTagOfType_untagged: "tagIds recipe = None \<Longrightarrow> \<not> hasTagOfType recipe tags g"
  by (simp add: hasTagOfType_def or_empty_def)

lemma goalPart_fst:
  "fst (goalPart cfg recipe preferences tags) =
     (\<Sum>index<length (or_empty (user_goals preferences)).
        if hasTagOfType recipe tags (or_empty (user_goals preferences) ! index)
        then (real (length (or_empty (user_goals preferences))) - real index)
             * w_goalAlignment (weights cfg)
        else 0)"
proof (cases "tagIds recipe")
  case None
  then show ?thesis
    by (simp add: goalPart_def hasTagOfType_untagged)
next
  case (Some ids)
  show ?thesis
  proof (cases "has_length (user_goals preferences) \<and> tags \<noteq> []")
    case True
    then show ?thesis
      using Some
      by (simp add: goalPart_def hasTagOfType_def or_empty_def scoreGoals_fst cong: if_cong)
  next
    case False
    then have "or_empty (user_goals preferences) = [] \<or> tags = []"
      by (auto simp: has_length_def or_empty_def split: option.splits)
    then show ?thesis
      using Some False by (auto simp: goalPart_def hasTagOfType_def)
  qed
qed

lemma hasTagOfType_mono:
  assumes "tagIds r = Some ids" "tagIds r' = Some ids'" "set ids \<subseteq> set ids'"
    and "hasTagOfType r tags g"
  shows "hasTagOfType r' tags g"
  using assms by (auto simp: hasTagOfType_def or_empty_def filter_empty_conv)

lemma scored_scoreRecipe: "scored (scoreRecipe cfg recipe preferences tags ctx) = recipe"
  by (simp add: scoreRecipe_def Let_def split: prod.splits)

lemma scoreRecipe_breakdown:
  "scoreBreakdown (scoreRecipe cfg recipe preferences tags ctx) =
     \<lparr> preferenceTagMatches = fst (preferencePart cfg recipe preferences),
       goalAlignment = fst (goalPart cfg recipe preferences tags),
       diversityBonus = (if currentMealPlanRecipeIds ctx \<noteq> []
                         then calculateDiversityBonus cfg recipe (currentMealPlanRecipeIds ctx) tags
                         else 0),
       recencyPenalty = (if recipe_id recipe \<in> set (recentRecipeIds ctx)
                         then w_recency (weights cfg) else 0),
       total_score = score (scoreRecipe cfg recipe preferences tags ctx) \<rparr>"
  by (simp add: scoreRecipe_def Let_def split: prod.splits)

lemma scoreRecipe_score:
  "score (scoreRecipe cfg recipe preferences tags ctx) =
     fst (preferencePart cfg recipe preferences) + fst (goalPart cfg recipe preferences tags)
     + (if currentMealPlanRecipeIds ctx \<noteq> []
        then calculateDiversityBonus cfg recipe (currentMealPlanRecipeIds ctx) tags else 0)
     + (if recipe_id recipe \<in> set (recentRecipeIds ctx) then w_recency (weights cfg) else 0)"
  by (simp add: scoreRecipe_def Let_def split: prod.splits)

subsection \<open>What the selector and the hook return\<close>

lemma validRecipes_ids:
  "map (recipe_id \<circ> scored) (validRecipes cfg recipes preferences tags options) =
   map recipe_id (filter (\<lambda>r. passesMinimum cfg (scoreRecipe cfg r preferences tags
            \<lparr> recentRecipeIds = or_empty (opt_recentRecipeIds options),
              currentMealPlanRecipeIds = or_empty (opt_currentMealPlanRecipeIds options) \<rparr>))
      (availableRecipes recipes options))"
  by (simp add: validRecipes_def scoredRecipes_def filter_map comp_def scored_scoreRecipe)

lemma availableRecipes_distinct:
  "distinct (map recipe_id recipes) \<Longrightarrow> distinct (map recipe_id (availableRecipes recipes options))"
  by (simp add: availableRecipes_def distinct_map_filter)

lemma validRecipes_distinct:
  "distinct (map recipe_id recipes) \<Longrightarrow>
   distinct (map (recipe_id \<circ> scored) (validRecipes cfg recipes preferences tags options))"
  unfolding validRecipes_ids by (rule distinct_map_filter) (rule availableRecipes_distinct)

lemma getRecommendations_scored_subset:
  assumes "rearranges srt"
  shows "scored ` set (getRecommendations cfg srt recipes preferences tags options) \<subseteq> set recipes"
proof -
  have "set (getRecommendations cfg srt recipes preferences tags options)
      \<subseteq> set (validRecipes cfg recipes preferences tags options)"
    using js_slice0_subset rearranges_set [OF assms] by (fastforce simp: getRecommendations_def)
  moreover have "scored ` set (validRecipes cfg recipes preferences tags options) \<subseteq> set recipes"
    by (auto simp: validRecipes_def scoredRecipes_def availableRecipes_def scored_scoreRecipe)
  ultimately show ?thesis by blast
qed

lemma getRecommendations_distinct:
  assumes "rearranges srt" "distinct (map recipe_id recipes)"
  shows "distinct (map (recipe_id \<circ> scored)
                      (getRecommendations cfg srt recipes preferences tags options))"
  unfolding getRecommendations_def
  by (intro js_slice0_distinct rearranges_distinct [OF assms(1)] validRecipes_distinct [OF assms(2)])

lemma getRandomRecommendations_subset:
  "rearranges shuffle \<Longrightarrow> set (getRandomRecommendations shuffle recipes k ex) \<subseteq> set recipes"
  using js_slice0_subset [of "shuffle (filter (\<lambda>r. recipe_id r \<notin> set (or_empty ex)) recipes)" k]
  by (auto simp: getRandomRecommendations_def rearranges_set)

lemma getRandomRecommendations_distinct:
  assumes "rearranges shuffle" "distinct (map recipe_id recipes)"
  shows "distinct (map recipe_id (getRandomRecommendations shuffle recipes k ex))"
  unfolding getRandomRecommendations_def
  by (intro js_slice0_distinct rearranges_distinct [OF assms(1)] distinct_map_filter assms(2))

lemma hook_scored_subset:
  assumes "oracleOk orc"
  shows "scored ` set (hook_getRecommendations env orc preferences options) \<subseteq> set (env_recipes env)"
  using assms getRecommendations_scored_subset [of "sortScored orc"]
    getRandomRecommendations_subset [of "shuffleRecipes orc"]
  by (auto simp: hook_getRecommendations_def oracleOk_def zeroScored_def image_image)

lemma hook_distinct:
  assumes "oracleOk orc" "distinct (map recipe_id (env_recipes env))"
  shows "distinct (map (recipe_id \<circ> scored) (hook_getRecommendations env orc preferences options))"
  using assms getRecommendations_distinct [of "sortScored orc" "env_recipes env"]
    getRandomRecommendations_distinct [of "shuffleRecipes orc" "env_recipes env"]
  by (auto simp: hook_getRecommendations_def oracleOk_def zeroScored_def comp_def)

lemma hook_length:
  "0 \<le> opt_count options \<Longrightarrow>
   int (length (hook_getRecommendations env orc preferences options)) \<le> opt_count options"
  by (simp add: hook_getRecommendations_def getRandomRecommendations_def getRecommendations_def
      js_slice0_length)

subsection \<open>Plan operations\<close>

lemma num_or_ge1: "numOk a \<Longrightarrow> 1 \<le> d \<Longrightarrow> 1 \<le> num_or a d"
  by (auto simp: numOk_def num_or_def split: option.splits)

lemma list_all_map_enumerate:
  "(\<And>i x. x \<in> set xs \<Longrightarrow> Q (g i x)) \<Longrightarrow> list_all Q (map (\<lambda>(i, x). g i x) (enumerate n xs))"
  by (induction xs arbitrary: n) simp_all

lemma generate_plan_cases:
  "currentMealPlan (generateInitialMealPlan env orc st) =
     (case env_preferences env of
        None \<Rightarrow> currentMealPlan st
      | Some p \<Rightarrow>
          map (\<lambda>(i, r). newMealItem (mealIds orc i) (scored r)
                 (num_or (serves_per_meal p) (num_or (default_servings (scored r)) 1)))
            (enumerate 0
               (hook_getRecommendations env orc p
                  \<lparr> opt_count = (case meals_per_week p of None \<Rightarrow> 4 | Some m \<Rightarrow> m),
                    opt_excludeRecipeIds = Some (planRecipeIds (renderedPlan st)),
                    opt_recentRecipeIds = None,
                    opt_currentMealPlanRecipeIds = Some (planRecipeIds (renderedPlan st)) \<rparr>)))"
  by (simp add: generateInitialMealPlan_def Let_def planRecipeIds_def split: option.splits)

lemma generate_errorLog: "errorLog (generateInitialMealPlan env orc st) = errorLog st"
  by (simp add: generateInitialMealPlan_def Let_def split: option.splits)

lemma generate_error:
  "error st = None \<Longrightarrow> error (generateInitialMealPlan env orc st) = None"
  by (simp add: generateInitialMealPlan_def Let_def split: option.splits)

lemma addMealToPlan_servings:
  assumes "numOk n" "numOk (case prefs of None \<Rightarrow> None | Some p \<Rightarrow> serves_per_meal p)"
    "numOk (default_servings r)" "list_all (\<lambda>m. 1 \<le> servings m) prev"
  shows "list_all (\<lambda>m. 1 \<le> servings m) (addMealToPlan prefs rendered r n newId prev)"
  using assms by (simp add: addMealToPlan_def newMealItem_def num_or_ge1)

lemma generate_servings:
  assumes "servingsInputsOk (Generate env orc)" "list_all (\<lambda>m. 1 \<le> servings m) (currentMealPlan st)"
  shows "list_all (\<lambda>m. 1 \<le> servings m) (currentMealPlan (generateInitialMealPlan env orc st))"
proof (cases "env_preferences env")
  case None
  then show ?thesis using assms(2) by (simp add: generate_plan_cases)
next
  case (Some p)
  have ok: "oracleOk orc" "numOk (serves_per_meal p)"
    "\<And>r. r \<in> set (env_recipes env) \<Longrightarrow> numOk (default_servings r)"
    using assms(1) Some by (simp_all add: list_all_iff)
  have "1 \<le> num_or (serves_per_meal p) (num_or (default_servings (scored x)) 1)"
    if "x \<in> set (hook_getRecommendations env orc p opts)" for x opts
  proof -
    have "scored x \<in> set (env_recipes env)"
      using hook_scored_subset [OF ok(1)] that by blast
    then show ?thesis
      by (intro num_or_ge1 ok) simp_all
  qed
  then show ?thesis
    by (simp add: generate_plan_cases Some list_all_map_enumerate newMealItem_def)
qed

lemma applyOp_servings:
  assumes "servingsInputsOk op" "list_all (\<lambda>m. 1 \<le> servings m) (currentMealPlan st)"
  shows "list_all (\<lambda>m. 1 \<le> servings m) (currentMealPlan (applyOp op st))"
proof (cases op)
  case (Generate env orc)
  then show ?thesis using assms generate_servings by simp
next
  case (Add prefs r n newId)
  then show ?thesis using assms by (simp add: addMealToPlan_servings)
next
  case (Remove mealId)
  then show ?thesis using assms by (simp add: removeMealFromPlan_def list_all_iff)
next
  case (UpdateServings mealId n)
  then show ?thesis using assms by (auto simp: updateMealServings_def list_all_iff)
next
  case Clear
  then show ?thesis by (simp add: clearMealPlan_def)
next
  case Render
  then show ?thesis using assms(2) by simp
qed

lemma runOps_servings:
  "list_all servingsInputsOk ops \<Longrightarrow> list_all (\<lambda>m. 1 \<le> servings m) (currentMealPlan st) \<Longrightarrow>
   list_all (\<lambda>m. 1 \<le> servings m) (currentMealPlan (runOps ops st))"
  by (induction ops arbitrary: st) (simp_all add: applyOp_servings)

lemma find_recipe_iff:
  "find (\<lambda>meal. recipe_id (meal_recipe meal) = i) plan = None \<longleftrightarrow> i \<notin> set (planRecipeIds plan)"
  by (induction plan) (auto simp: planRecipeIds_def)

lemma isMealInPlan_iff: "isMealInPlan plan i \<longleftrightarrow> i \<in> set (planRecipeIds plan)"
  by (auto simp: isMealInPlan_def list_ex_iff planRecipeIds_def)

lemma addMealToPlan_present:
  "isMealInPlan plan (recipe_id r) \<Longrightarrow> addMealToPlan prefs plan r n newId plan = plan"
  by (simp add: addMealToPlan_def find_recipe_iff isMealInPlan_iff)

lemma addMealToPlan_contains:
  "isMealInPlan (addMealToPlan prefs plan r n newId plan) (recipe_id r)"
  by (auto simp: addMealToPlan_def find_recipe_iff isMealInPlan_iff planRecipeIds_def
      newMealItem_def)

lemma addMealToPlan_distinct:
  "distinct (planRecipeIds plan) \<Longrightarrow>
   distinct (planRecipeIds (addMealToPlan prefs plan r n newId plan))"
  by (auto simp: addMealToPlan_def find_recipe_iff planRecipeIds_def newMealItem_def)

subsection \<open>The sample data, evaluated\<close>

lemmas sample_defs = sample_recipe_def sample_tags_def sample_preferences_def sample_options_def
  keep_order_def sample_catalog_def sample_context_def

lemmas selector_defs = getRecommendations_def validRecipes_def scoredRecipes_def
  availableRecipes_def passesMinimum_def scoreRecipe_def preferencePart_def goalPart_def
  calculateDiversityBonus_def has_length_def or_empty_def js_slice0_def DEFAULT_CONFIG_def Let_def

lemmas provider_defs = generateInitialMealPlan_def hook_getRecommendations_def
  getRandomRecommendations_def zeroScored_def newMealItem_def addMealToPlan_def
  removeMealFromPlan_def updateMealServings_def clearMealPlan_def num_or_def initialState_def
  sample_env_def sample_oracle_def sample_ids_def sample_ops_def planRecipeIds_def

lemma sample_generate:
  "renderedPlan st = [] \<Longrightarrow>
   generateInitialMealPlan sample_env sample_oracle st =
     st \<lparr> currentMealPlan := sample_plan, initialized := True, loading := False,
          error := None \<rparr>"
  by (simp add: provider_defs sample_defs selector_defs sample_plan_def)

lemma sample_ops_result:
  "currentMealPlan (runOps sample_ops initialState)
   = [newMealItem ''mm'' (sample_recipe ''r2'' [''t3'']) 2,
      newMealItem ''mmm'' (sample_recipe ''r3'' []) 2,
      newMealItem ''a1'' (sample_recipe ''r9'' []) 5]"
  by (simp add: provider_defs sample_defs selector_defs)

section \<open>Properties of the scoring engine\<close>

text \<open>
  Claim C6, amended. The goal-alignment term of \<^verbatim>\<open>scoreRecipe\<close> is the sum, over the
  positions of the goal list, of (length of the list minus the position) times the goal
  weight, taken at the positions whose goal type is the type of one of the recipe's tags.
  So with the goals \<open>time\<close>, \<open>budget\<close>, a recipe whose tags match only \<open>time\<close> gets twice
  the goal weight and one whose tags match only \<open>budget\<close> gets the weight once: the first
  term is strictly the higher exactly when the configured goal weight is positive, as the
  default 2 is.
\<close>

theorem goalAlignment_priority:
  "(user_goals preferences = Some goals \<longrightarrow>
      goalAlignment (scoreBreakdown (scoreRecipe cfg recipe preferences tags ctx)) =
        (\<Sum>index<length goals.
            if hasTagOfType recipe tags (goals ! index)
            then (real (length goals) - real index) * w_goalAlignment (weights cfg)
            else 0))
   \<and> (user_goals preferences = Some [''time'', ''budget'']
      \<and> hasTagOfType a tags ''time'' \<and> \<not> hasTagOfType a tags ''budget''
      \<and> hasTagOfType b tags ''budget'' \<and> \<not> hasTagOfType b tags ''time''
      \<longrightarrow> goalAlignment (scoreBreakdown (scoreRecipe cfg a preferences tags ctx))
            = 2 * w_goalAlignment (weights cfg)
          \<and> goalAlignment (scoreBreakdown (scoreRecipe cfg b preferences tags ctx'))
            = w_goalAlignment (weights cfg)
          \<and> (goalAlignment (scoreBreakdown (scoreRecipe cfg b preferences tags ctx'))
              < goalAlignment (scoreBreakdown (scoreRecipe cfg a preferences tags ctx))
             \<longleftrightarrow> 0 < w_goalAlignment (weights cfg)))"
proof (intro conjI impI)
  assume "user_goals preferences = Some goals"
  then show "goalAlignment (scoreBreakdown (scoreRecipe cfg recipe preferences tags ctx)) =
        (\<Sum>index<length goals.
            if hasTagOfType recipe tags (goals ! index)
            then (real (length goals) - real index) * w_goalAlignment (weights cfg)
            else 0)"
    by (simp add: scoreRecipe_breakdown goalPart_fst or_empty_def cong: if_cong)
next
  assume h: "user_goals preferences = Some [''time'', ''budget'']
      \<and> hasTagOfType a tags ''time'' \<and> \<not> hasTagOfType a tags ''budget''
      \<and> hasTagOfType b tags ''budget'' \<and> \<not> hasTagOfType b tags ''time''"
  have two: "{..<2::nat} = {0, 1}"
    by auto
  show ga: "goalAlignment (scoreBreakdown (scoreRecipe cfg a preferences tags ctx))
            = 2 * w_goalAlignment (weights cfg)"
    using h by (simp add: scoreRecipe_breakdown goalPart_fst or_empty_def two)
  show gb: "goalAlignment (scoreBreakdown (scoreRecipe cfg b preferences tags ctx'))
            = w_goalAlignment (weights cfg)"
    using h by (simp add: scoreRecipe_breakdown goalPart_fst or_empty_def two)
  show "goalAlignment (scoreBreakdown (scoreRecipe cfg b preferences tags ctx'))
          < goalAlignment (scoreBreakdown (scoreRecipe cfg a preferences tags ctx))
        \<longleftrightarrow> 0 < w_goalAlignment (weights cfg)"
    by (simp add: ga gb)
qed

text \<open>
  Under the default weights, a recipe tagged for \<open>time\<close> alone scores 4 on goal alignment
  and one tagged for \<open>budget\<close> alone scores 2.
\<close>

theorem goalAlignment_priority_witness:
  "user_goals sample_preferences = Some [''time'', ''budget'']
   \<and> 0 < w_goalAlignment (weights DEFAULT_CONFIG)
   \<and> hasTagOfType (sample_recipe ''r1'' [''t1'']) sample_tags ''time''
   \<and> \<not> hasTagOfType (sample_recipe ''r1'' [''t1'']) sample_tags ''budget''
   \<and> hasTagOfType (sample_recipe ''r2'' [''t2'']) sample_tags ''budget''
   \<and> \<not> hasTagOfType (sample_recipe ''r2'' [''t2'']) sample_tags ''time''
   \<and> goalAlignment (scoreBreakdown (scoreRecipe DEFAULT_CONFIG (sample_recipe ''r1'' [''t1''])
         sample_preferences sample_tags sample_context)) = 4
   \<and> goalAlignment (scoreBreakdown (scoreRecipe DEFAULT_CONFIG (sample_recipe ''r2'' [''t2''])
         sample_preferences sample_tags sample_context)) = 2
   \<and> goalAlignment (scoreBreakdown (scoreRecipe DEFAULT_CONFIG (sample_recipe ''r2'' [''t2''])
         sample_preferences sample_tags sample_context))
     < goalAlignment (scoreBreakdown (scoreRecipe DEFAULT_CONFIG (sample_recipe ''r1'' [''t1''])
         sample_preferences sample_tags sample_context))"
  using goalAlignment_priority [where recipe = "sample_recipe ''r1'' [''t1'']"
      and preferences = sample_preferences and goals = "[''time'', ''budget'']"
      and tags = sample_tags and cfg = DEFAULT_CONFIG and ctx = sample_context
      and a = "sample_recipe ''r1'' [''t1'']" and b = "sample_recipe ''r2'' [''t2'']"
      and ctx' = sample_context]
  by (simp add: sample_defs hasTagOfType_def or_empty_def DEFAULT_CONFIG_def)

text \<open>
  For every configuration the ordering fails: the goal weight is the caller's to set. With
  a goal weight of 0 the two recipes both score 0 on goal alignment, and with a goal weight
  of \<open>-1\<close> the recipe tagged for \<open>time\<close> scores \<open>-2\<close>, below the \<open>-1\<close> of the recipe tagged
  for \<open>budget\<close>.
\<close>

theorem goalAlignment_weight_counterexample:
  "goalAlignment (scoreBreakdown (scoreRecipe (sample_config 0) (sample_recipe ''r1'' [''t1''])
         sample_preferences sample_tags sample_context)) = 0
   \<and> goalAlignment (scoreBreakdown (scoreRecipe (sample_config 0) (sample_recipe ''r2'' [''t2''])
         sample_preferences sample_tags sample_context)) = 0
   \<and> goalAlignment (scoreBreakdown (scoreRecipe (sample_config (- 1)) (sample_recipe ''r1'' [''t1''])
         sample_preferences sample_tags sample_context)) = - 2
   \<and> goalAlignment (scoreBreakdown (scoreRecipe (sample_config (- 1)) (sample_recipe ''r2'' [''t2''])
         sample_preferences sample_tags sample_context)) = - 1"
  by (simp add: sample_defs selector_defs sample_config_def)

text \<open>
  Claim C7. With weights for preference tags, goals and diversity that are not negative
  (the default ones are not), putting one more tag identifier that the user prefers
  anywhere into the recipe's list of tag identifiers does not lower the recipe's score,
  the preferences, the taxonomy and the context being the same.
\<close>

theorem score_monotone_in_preferred_tag:
  assumes "0 \<le> w_preferenceTag (weights cfg)"
    and "0 \<le> w_goalAlignment (weights cfg)"
    and "0 \<le> w_diversity (weights cfg)"
    and "tagIds recipe = Some (xs @ ys)"
    and "isPreferredTag preferences t"
  shows "score (scoreRecipe cfg recipe preferences tags ctx)
       \<le> score (scoreRecipe cfg (recipe \<lparr> tagIds := Some (xs @ t # ys) \<rparr>) preferences tags ctx)"
proof -
  let ?r' = "recipe \<lparr> tagIds := Some (xs @ t # ys) \<rparr>"
  have ids': "tagIds ?r' = Some (xs @ t # ys)"
    by simp
  have "w_preferenceTag (weights cfg) * real (length (filter (isPreferredTag preferences) (xs @ ys)))
      \<le> w_preferenceTag (weights cfg)
          * real (length (filter (isPreferredTag preferences) (xs @ t # ys)))"
    using assms(1) by (intro mult_left_mono) simp_all
  then have pm: "fst (preferencePart cfg recipe preferences) \<le> fst (preferencePart cfg ?r' preferences)"
    by (simp add: preferencePart_fst [OF assms(4)] preferencePart_fst [OF ids'])
  have step: "(if hasTagOfType recipe tags g then (real n - real k) * w_goalAlignment (weights cfg) else 0)
      \<le> (if hasTagOfType ?r' tags g then (real n - real k) * w_goalAlignment (weights cfg) else 0)"
    if "k < n" for g and n k :: nat
  proof -
    have "0 \<le> (real n - real k) * w_goalAlignment (weights cfg)"
      using that assms(2) by simp
    moreover have "hasTagOfType recipe tags g \<Longrightarrow> hasTagOfType ?r' tags g"
      by (rule hasTagOfType_mono [OF assms(4) ids']) auto
    ultimately show ?thesis by auto
  qed
  have ga: "fst (goalPart cfg recipe preferences tags) \<le> fst (goalPart cfg ?r' preferences tags)"
    unfolding goalPart_fst by (auto intro!: sum_mono step)
  have db: "calculateDiversityBonus cfg recipe planIds tags
      \<le> calculateDiversityBonus cfg ?r' planIds tags" for planIds
    using assms(3,4) by (simp add: calculateDiversityBonus_def has_length_def)
  have rid: "recipe_id ?r' = recipe_id recipe"
    by simp
  show ?thesis
    unfolding scoreRecipe_score rid using pm ga db [of "currentMealPlanRecipeIds ctx"]
    by (simp add: add_mono)
qed

text \<open>
  The sample recipe \<open>r1\<close>, eaten recently and scored against a plan that is not empty,
  goes from 4 to 5 when the preferred tag \<open>t3\<close> is added to it.
\<close>

theorem score_monotone_in_preferred_tag_witness:
  "0 \<le> w_preferenceTag (weights DEFAULT_CONFIG) \<and> 0 \<le> w_goalAlignment (weights DEFAULT_CONFIG)
   \<and> 0 \<le> w_diversity (weights DEFAULT_CONFIG)
   \<and> tagIds (sample_recipe ''r1'' [''t1'']) = Some ([''t1''] @ [])
   \<and> isPreferredTag sample_preferences ''t3''
   \<and> score (scoreRecipe DEFAULT_CONFIG (sample_recipe ''r1'' [''t1'']) sample_preferences sample_tags
           sample_context) = 4
   \<and> score (scoreRecipe DEFAULT_CONFIG
             ((sample_recipe ''r1'' [''t1'']) \<lparr> tagIds := Some ([''t1''] @ ''t3'' # []) \<rparr>)
             sample_preferences sample_tags sample_context) = 5
   \<and> score (scoreRecipe DEFAULT_CONFIG (sample_recipe ''r1'' [''t1'']) sample_preferences sample_tags
           sample_context)
      \<le> score (scoreRecipe DEFAULT_CONFIG
             ((sample_recipe ''r1'' [''t1'']) \<lparr> tagIds := Some ([''t1''] @ ''t3'' # []) \<rparr>)
             sample_preferences sample_tags sample_context)"
proof -
  have w: "0 \<le> w_preferenceTag (weights DEFAULT_CONFIG)" "0 \<le> w_goalAlignment (weights DEFAULT_CONFIG)"
    "0 \<le> w_diversity (weights DEFAULT_CONFIG)"
    by (simp_all add: DEFAULT_CONFIG_def)
  have i: "tagIds (sample_recipe ''r1'' [''t1'']) = Some ([''t1''] @ [])"
    by (simp add: sample_recipe_def)
  have p: "isPreferredTag sample_preferences ''t3''"
    by (simp add: isPreferredTag_def sample_preferences_def or_empty_def)
  have v: "score (scoreRecipe DEFAULT_CONFIG (sample_recipe ''r1'' [''t1'']) sample_preferences sample_tags
           sample_context) = 4"
    "score (scoreRecipe DEFAULT_CONFIG
             ((sample_recipe ''r1'' [''t1'']) \<lparr> tagIds := Some ([''t1''] @ ''t3'' # []) \<rparr>)
             sample_preferences sample_tags sample_context) = 5"
    by (simp_all add: sample_defs selector_defs)
  from score_monotone_in_preferred_tag [OF w i p, of sample_tags sample_context] w i p v
  show ?thesis by blast
qed

text \<open>
  Claim C2, amended. When the current plan is not empty, the diversity term of
  \<^verbatim>\<open>scoreRecipe\<close> is the configured diversity weight for a recipe with at least one tag
  identifier, provided a diversity tag type is configured (as by default), whatever tags the
  recipe shares with the planned ones; for a recipe with no tag identifier, or with no
  diversity tag type configured, it is 0.
\<close>

theorem diversity_term_flat:
  "currentMealPlanRecipeIds ctx \<noteq> [] \<Longrightarrow>
   diversityBonus (scoreBreakdown (scoreRecipe cfg recipe preferences tags ctx)) =
     (if has_length (tagIds recipe) \<and> has_length (diversityTagTypes cfg)
      then w_diversity (weights cfg) else 0)"
  by (simp add: scoreRecipe_breakdown calculateDiversityBonus_def)

theorem diversity_term_flat_witness:
  "currentMealPlanRecipeIds sample_context \<noteq> []
   \<and> diversityBonus (scoreBreakdown (scoreRecipe DEFAULT_CONFIG (sample_recipe ''r1'' [''t1''])
        sample_preferences sample_tags sample_context)) = 1 / 2"
  using diversity_term_flat [of sample_context DEFAULT_CONFIG "sample_recipe ''r1'' [''t1'']"
      sample_preferences sample_tags]
  by (simp add: sample_context_def sample_recipe_def DEFAULT_CONFIG_def has_length_def)

text \<open>
  For every recipe the claim fails: with one recipe planned and the default weight of one
  half, a recipe without tags gets a diversity term of 0.
\<close>

theorem diversity_term_untagged_counterexample:
  "currentMealPlanRecipeIds sample_context \<noteq> []
   \<and> w_diversity (weights DEFAULT_CONFIG) = 1 / 2
   \<and> diversityBonus (scoreBreakdown (scoreRecipe DEFAULT_CONFIG (sample_recipe ''r1'' [])
        sample_preferences sample_tags sample_context)) = 0"
  by (simp add: scoreRecipe_breakdown calculateDiversityBonus_def sample_context_def
      sample_recipe_def DEFAULT_CONFIG_def has_length_def)

section \<open>Properties of the recommendation selector\<close>

text \<open>
  Claim C1, amended. For every catalog and every count that is not negative,
  \<^verbatim>\<open>getRecommendations\<close> returns at most \<open>count\<close> entries, however the count compares to
  the size of the catalog; and for every catalog that lists no recipe identifier twice it
  returns no recipe identifier twice, whatever the count and whatever order the sort
  leaves. Both hold of the hook's \<^verbatim>\<open>getRecommendations\<close> as well, which adds the random
  selection for a user without preference tags and goals.
\<close>

theorem getRecommendations_bounded_distinct:
  "(0 \<le> opt_count options
      \<longrightarrow> int (length (getRecommendations cfg srt recipes preferences tags options))
            \<le> opt_count options
          \<and> int (length (hook_getRecommendations env orc preferences options))
            \<le> opt_count options)
   \<and> (rearranges srt \<and> distinct (map recipe_id recipes)
      \<longrightarrow> distinct (map (recipe_id \<circ> scored)
                       (getRecommendations cfg srt recipes preferences tags options')))
   \<and> (oracleOk orc \<and> distinct (map recipe_id (env_recipes env))
      \<longrightarrow> distinct (map (recipe_id \<circ> scored)
                       (hook_getRecommendations env orc preferences options')))"
proof (intro conjI impI)
  assume "0 \<le> opt_count options"
  then show "int (length (getRecommendations cfg srt recipes preferences tags options))
          \<le> opt_count options"
    and "int (length (hook_getRecommendations env orc preferences options))
          \<le> opt_count options"
    by (simp_all add: getRecommendations_def js_slice0_length hook_length)
next
  assume "rearranges srt \<and> distinct (map recipe_id recipes)"
  then show "distinct (map (recipe_id \<circ> scored)
                      (getRecommendations cfg srt recipes preferences tags options'))"
    by (simp add: getRecommendations_distinct)
next
  assume "oracleOk orc \<and> distinct (map recipe_id (env_recipes env))"
  then show "distinct (map (recipe_id \<circ> scored)
                      (hook_getRecommendations env orc preferences options'))"
    by (simp add: hook_distinct)
qed

text \<open>
  On the sample catalog of three recipes a count of two brings back the two best, and a
  count of \<open>-1\<close>, which \<^verbatim>\<open>slice\<close> reads from the end, brings back the same two.
\<close>

theorem getRecommendations_bounded_distinct_witness:
  "0 \<le> opt_count (sample_options 2 [] [])
   \<and> rearranges (keep_order :: ScoredRecipe list \<Rightarrow> ScoredRecipe list)
   \<and> oracleOk sample_oracle
   \<and> distinct (map recipe_id sample_catalog)
   \<and> distinct (map recipe_id (env_recipes sample_env))
   \<and> map (recipe_id \<circ> scored)
        (getRecommendations DEFAULT_CONFIG keep_order sample_catalog sample_preferences
           sample_tags (sample_options 2 [] [])) = [''r1'', ''r2'']
   \<and> map (recipe_id \<circ> scored)
        (getRecommendations DEFAULT_CONFIG keep_order sample_catalog sample_preferences
           sample_tags (sample_options (- 1) [] [])) = [''r1'', ''r2'']
   \<and> int (length (getRecommendations DEFAULT_CONFIG keep_order sample_catalog sample_preferences
           sample_tags (sample_options 2 [] []))) \<le> opt_count (sample_options 2 [] [])
   \<and> int (length (hook_getRecommendations sample_env sample_oracle sample_preferences
           (sample_options 2 [] []))) \<le> opt_count (sample_options 2 [] [])
   \<and> distinct (map (recipe_id \<circ> scored)
        (getRecommendations DEFAULT_CONFIG keep_order sample_catalog sample_preferences
           sample_tags (sample_options (- 1) [] [])))
   \<and> distinct (map (recipe_id \<circ> scored)
        (hook_getRecommendations sample_env sample_oracle sample_preferences
           (sample_options (- 1) [] [])))"
proof -
  have a: "rearranges (keep_order :: ScoredRecipe list \<Rightarrow> ScoredRecipe list)"
    by (rule rearranges_keep_order)
  have b: "distinct (map recipe_id sample_catalog)"
    "distinct (map recipe_id (env_recipes sample_env))"
    by (simp_all add: sample_env_def sample_catalog_def sample_recipe_def)
  have c: "0 \<le> opt_count (sample_options 2 [] [])"
    by (simp add: sample_options_def)
  have d: "map (recipe_id \<circ> scored)
        (getRecommendations DEFAULT_CONFIG keep_order sample_catalog sample_preferences
           sample_tags (sample_options 2 [] [])) = [''r1'', ''r2'']"
    "map (recipe_id \<circ> scored)
        (getRecommendations DEFAULT_CONFIG keep_order sample_catalog sample_preferences
           sample_tags (sample_options (- 1) [] [])) = [''r1'', ''r2'']"
    by (simp_all add: sample_defs selector_defs)
  from getRecommendations_bounded_distinct [where srt = keep_order and recipes = sample_catalog
      and options = "sample_options 2 [] []" and options' = "sample_options (- 1) [] []"
      and cfg = DEFAULT_CONFIG and preferences = sample_preferences and tags = sample_tags
      and orc = sample_oracle and env = sample_env] a b c d oracleOk_sample
  show ?thesis by simp
qed

text \<open>
  For every catalog the claim fails: the selector removes no repeated identifier. A
  catalog that lists recipe \<open>r1\<close> twice, asked for two recipes, gives two entries, both
  \<open>r1\<close>.
\<close>

theorem getRecommendations_duplicates_counterexample:
  "map (recipe_id \<circ> scored)
     (getRecommendations DEFAULT_CONFIG keep_order
        [sample_recipe ''r1'' [], sample_recipe ''r1'' []]
        sample_preferences sample_tags (sample_options 2 [] [])) = [''r1'', ''r1'']
   \<and> \<not> distinct (map (recipe_id \<circ> scored) (getRecommendations DEFAULT_CONFIG keep_order
            [sample_recipe ''r1'' [], sample_recipe ''r1'' []]
            sample_preferences sample_tags (sample_options 2 [] [])))"
  by (simp add: sample_defs selector_defs)

text \<open>
  Claim C3, amended. Under the default configuration the minimum is 0 and the
  minimum-score step of \<^verbatim>\<open>getRecommendations\<close> keeps exactly the scored recipes whose
  total is at least 0: a recipe with a negative total is dropped before the ranking.
\<close>

theorem default_minimum_score_filters_negative:
  "validRecipes DEFAULT_CONFIG recipes preferences tags options =
     filter (\<lambda>r. 0 \<le> score r) (scoredRecipes DEFAULT_CONFIG recipes preferences tags options)"
  by (simp add: validRecipes_def passesMinimum_def [abs_def] DEFAULT_CONFIG_def)

text \<open>With \<open>r3\<close> eaten recently, the sample catalog keeps its two other recipes.\<close>

theorem default_minimum_score_filters_negative_witness:
  "map score (scoredRecipes DEFAULT_CONFIG sample_catalog sample_preferences sample_tags
        (sample_options 4 [''r3''] [])) = [4, 1, - (1 / 2)]
   \<and> map (recipe_id \<circ> scored)
        (validRecipes DEFAULT_CONFIG sample_catalog sample_preferences sample_tags
           (sample_options 4 [''r3''] [])) = [''r1'', ''r2'']"
proof -
  have s: "map score (scoredRecipes DEFAULT_CONFIG sample_catalog sample_preferences sample_tags
        (sample_options 4 [''r3''] [])) = [4, 1, - (1 / 2)]"
    by (simp add: sample_defs selector_defs)
  have "map (recipe_id \<circ> scored)
        (filter (\<lambda>r. 0 \<le> score r)
           (scoredRecipes DEFAULT_CONFIG sample_catalog sample_preferences sample_tags
              (sample_options 4 [''r3''] []))) = [''r1'', ''r2'']"
    by (simp add: sample_defs selector_defs)
  with s show ?thesis
    unfolding default_minimum_score_filters_negative [of sample_catalog sample_preferences
        sample_tags "sample_options 4 [''r3''] []"]
    by simp
qed

text \<open>
  The claim that the default performs no filtering fails: a recipe whose only term is the
  recency penalty scores minus one half and does not reach the ranking.
\<close>

theorem default_minimum_score_counterexample:
  "map score (scoredRecipes DEFAULT_CONFIG [sample_recipe ''r1'' []] sample_preferences sample_tags
        (sample_options 4 [''r1''] [])) = [- (1 / 2)]
   \<and> validRecipes DEFAULT_CONFIG [sample_recipe ''r1'' []] sample_preferences sample_tags
        (sample_options 4 [''r1''] []) = []"
  by (simp add: sample_defs selector_defs)

section \<open>Properties of the plan operations\<close>

text \<open>
  Claim C4, amended. After any sequence of plan operations (generate, add, remove,
  updateServings, clear) from the empty plan, with renders anywhere between them, every
  entry has at least one serving, provided that every call of \<^verbatim>\<open>updateServings\<close> passes at
  least 1 and that every servings value handed to \<^verbatim>\<open>add\<close> or read by \<^verbatim>\<open>generate\<close> (the
  argument, the user's servings per meal, a recipe's default) is absent, 0 or at least 1.
\<close>

theorem servings_positive_for_valid_inputs:
  "list_all servingsInputsOk ops \<Longrightarrow>
   list_all (\<lambda>m. 1 \<le> servings m) (currentMealPlan (runOps ops initialState))"
  by (rule runOps_servings) (simp_all add: initialState_def)

theorem servings_positive_for_valid_inputs_witness:
  "list_all servingsInputsOk sample_ops
   \<and> map servings (currentMealPlan (runOps sample_ops initialState)) = [2, 2, 5]
   \<and> list_all (\<lambda>m. 1 \<le> servings m) (currentMealPlan (runOps sample_ops initialState))"
proof -
  have ok: "list_all servingsInputsOk sample_ops"
    by (simp add: sample_ops_def oracleOk_sample)
       (simp add: sample_env_def sample_preferences_def sample_catalog_def sample_recipe_def
          numOk_def)
  have "map servings (currentMealPlan (runOps sample_ops initialState)) = [2, 2, 5]"
    by (simp add: sample_ops_result newMealItem_def)
  with ok servings_positive_for_valid_inputs [OF ok] show ?thesis
    by blast
qed

text \<open>
  For all inputs the claim fails: no operation checks the number of servings.
  \<^verbatim>\<open>updateMealServings\<close> stores zero and a negative number as they are; \<^verbatim>\<open>addMealToPlan\<close>
  stores the half serving it is given; and \<^verbatim>\<open>generateInitialMealPlan\<close> gives every entry
  the half serving of the user's preferences.
\<close>

theorem servings_not_validated_counterexample:
  "map servings (currentMealPlan (runOps
      [Add None (sample_recipe ''r1'' []) (Some 2) ''a1'', UpdateServings ''a1'' 0]
      initialState)) = [0]
   \<and> map servings (currentMealPlan (runOps
      [Add None (sample_recipe ''r1'' []) (Some 2) ''a1'', UpdateServings ''a1'' (- 3)]
      initialState)) = [- 3]
   \<and> map servings (currentMealPlan (runOps
      [Add None (sample_recipe ''r1'' []) (Some (1 / 2)) ''a1''] initialState)) = [1 / 2]
   \<and> map servings (currentMealPlan (runOps
      [Generate sample_env_half sample_oracle] initialState)) = [1 / 2, 1 / 2, 1 / 2]"
  by (simp add: provider_defs sample_defs selector_defs sample_env_half_def)

text \<open>
  Claim C5 says that \<^verbatim>\<open>addMealToPlan\<close> does nothing when the recipe's identifier is already
  in the working plan, so that adding a recipe twice in a row leaves the size of the plan
  unchanged and the plan never holds a recipe identifier twice. The code keeps this only
  across a render. It looks for the recipe in the plan of the render the callback was
  created in and appends to the plan the state updater receives: with a render between
  the two calls the second one finds the recipe and returns, and without one, two calls
  made in one event, both look into the same empty plan and both append.
\<close>

theorem addMealToPlan_twice_in_one_event:
  "planRecipeIds (currentMealPlan (runOps
      [Add None (sample_recipe ''r1'' []) None ''a1'',
       Add None (sample_recipe ''r1'' []) None ''a2''] initialState)) = [''r1'', ''r1'']
   \<and> planRecipeIds (currentMealPlan (runOps
      [Add None (sample_recipe ''r1'' []) None ''a1'', Render,
       Add None (sample_recipe ''r1'' []) None ''a2''] initialState)) = [''r1'']"
  by (simp add: provider_defs sample_defs)

text \<open>
  The same for every recipe and every plan: two calls from one render whose plan lacks
  the recipe append it twice.
\<close>

lemma addMealToPlan_same_render:
  "\<not> isMealInPlan rendered (recipe_id r) \<Longrightarrow>
   planRecipeIds (addMealToPlan prefs rendered r n' newId'
                    (addMealToPlan prefs rendered r n newId prev))
     = planRecipeIds prev @ [recipe_id r, recipe_id r]"
  by (simp add: addMealToPlan_def find_recipe_iff isMealInPlan_iff planRecipeIds_def
      newMealItem_def)

text \<open>
  What the check gives when the rendered plan is the state: a call for a recipe that is
  in the plan changes nothing, a second call after a render keeps the size, and the
  recipe identifiers of the plan stay distinct.
\<close>

lemma addMealToPlan_between_renders:
  "(isMealInPlan plan (recipe_id r) \<longrightarrow> addMealToPlan prefs plan r n newId plan = plan)
   \<and> length (addMealToPlan prefs' (addMealToPlan prefs plan r n newId plan) r n' newId'
               (addMealToPlan prefs plan r n newId plan))
     = length (addMealToPlan prefs plan r n newId plan)
   \<and> (distinct (planRecipeIds plan)
        \<longrightarrow> distinct (planRecipeIds (addMealToPlan prefs plan r n newId plan)))"
proof (intro conjI impI)
  show "addMealToPlan prefs plan r n newId plan = plan" if "isMealInPlan plan (recipe_id r)"
    using that by (rule addMealToPlan_present)
  show "length (addMealToPlan prefs' (addMealToPlan prefs plan r n newId plan) r n' newId'
               (addMealToPlan prefs plan r n newId plan))
     = length (addMealToPlan prefs plan r n newId plan)"
    by (simp add: addMealToPlan_present [OF addMealToPlan_contains])
  show "distinct (planRecipeIds (addMealToPlan prefs plan r n newId plan))"
    if "distinct (planRecipeIds plan)"
    using that by (rule addMealToPlan_distinct)
qed

text \<open>
  Claim C9. \<^verbatim>\<open>updateMealServings\<close> keeps the length of the plan, the identifier and the
  recipe of every entry and their order; at every position the entry is the old one, with
  the new servings when its identifier is the given one; and a plan with no entry of the
  given identifier is unchanged.
\<close>

theorem updateMealServings_frame:
  "length (updateMealServings mealId n plan) = length plan
   \<and> map meal_id (updateMealServings mealId n plan) = map meal_id plan
   \<and> map meal_recipe (updateMealServings mealId n plan) = map meal_recipe plan
   \<and> (\<forall>i<length plan.
        updateMealServings mealId n plan ! i =
          (if meal_id (plan ! i) = mealId then (plan ! i) \<lparr> servings := n \<rparr> else plan ! i))
   \<and> (getMealById plan absent = None \<longrightarrow> updateMealServings absent n plan = plan)"
proof (intro conjI allI impI)
  show "length (updateMealServings mealId n plan) = length plan"
    by (simp add: updateMealServings_def)
  show "map meal_id (updateMealServings mealId n plan) = map meal_id plan"
    by (simp add: updateMealServings_def comp_def if_distrib cong: if_cong)
  show "map meal_recipe (updateMealServings mealId n plan) = map meal_recipe plan"
    by (simp add: updateMealServings_def comp_def if_distrib cong: if_cong)
  show "updateMealServings mealId n plan ! i =
          (if meal_id (plan ! i) = mealId then (plan ! i) \<lparr> servings := n \<rparr> else plan ! i)"
    if "i < length plan" for i
    using that by (simp add: updateMealServings_def)
  show "updateMealServings absent n plan = plan" if "getMealById plan absent = None"
    using that by (auto simp: updateMealServings_def getMealById_def find_None_iff intro!: map_idI)
qed

theorem updateMealServings_frame_witness:
  "(1::nat) < length sample_plan
   \<and> getMealById sample_plan ''zz'' = None
   \<and> updateMealServings ''mm'' 5 sample_plan =
       [newMealItem ''m'' (sample_recipe ''r1'' [''t1'']) 2,
        newMealItem ''mm'' (sample_recipe ''r2'' [''t3'']) 5,
        newMealItem ''mmm'' (sample_recipe ''r3'' []) 2]
   \<and> updateMealServings ''mm'' 5 sample_plan ! 1 = (sample_plan ! 1) \<lparr> servings := 5 \<rparr>
   \<and> updateMealServings ''zz'' 5 sample_plan = sample_plan"
proof -
  have a: "(1::nat) < length sample_plan"
    by (simp add: sample_plan_def)
  have b: "getMealById sample_plan ''zz'' = None"
    by (simp add: sample_plan_def getMealById_def newMealItem_def)
  have c: "updateMealServings ''mm'' 5 sample_plan =
       [newMealItem ''m'' (sample_recipe ''r1'' [''t1'']) 2,
        newMealItem ''mm'' (sample_recipe ''r2'' [''t3'']) 5,
        newMealItem ''mmm'' (sample_recipe ''r3'' []) 2]"
    by (simp add: sample_plan_def updateMealServings_def newMealItem_def)
  have d: "meal_id (sample_plan ! 1) = ''mm''"
    by (simp add: sample_plan_def newMealItem_def)
  note t = updateMealServings_frame [where mealId = "''mm''" and n = 5 and plan = sample_plan
      and absent = "''zz''"]
  from t a have "updateMealServings ''mm'' 5 sample_plan ! 1 =
      (if meal_id (sample_plan ! 1) = ''mm'' then (sample_plan ! 1) \<lparr> servings := 5 \<rparr>
       else sample_plan ! 1)"
    by blast
  with d have e: "updateMealServings ''mm'' 5 sample_plan ! 1 = (sample_plan ! 1) \<lparr> servings := 5 \<rparr>"
    by simp
  from t b have f: "updateMealServings ''zz'' 5 sample_plan = sample_plan"
    by blast
  from a b c e f show ?thesis
    by blast
qed

text \<open>
  Claim C10. \<^verbatim>\<open>getCurrentMealPlan(limit)\<close> returns the first \<open>limit\<close> entries of the plan
  for a positive limit, and the whole plan, not the empty list, for the limit 0, as it does
  without a limit.
\<close>

theorem getCurrentMealPlan_limit:
  "(0 < l \<longrightarrow> getCurrentMealPlan plan (Some l) = take (nat l) plan)
   \<and> getCurrentMealPlan plan (Some 0) = plan
   \<and> getCurrentMealPlan plan None = plan"
  by (simp add: getCurrentMealPlan_def js_slice0_def Let_def min_def)

theorem getCurrentMealPlan_limit_witness:
  "(0::int) < 2
   \<and> getCurrentMealPlan sample_plan (Some 2) =
       [newMealItem ''m'' (sample_recipe ''r1'' [''t1'']) 2,
        newMealItem ''mm'' (sample_recipe ''r2'' [''t3'']) 2]
   \<and> getCurrentMealPlan sample_plan (Some 0) = sample_plan
   \<and> sample_plan \<noteq> []"
  using getCurrentMealPlan_limit [of 2 sample_plan]
  by (simp add: sample_plan_def)

section \<open>Properties of loading a week\<close>

text \<open>
  Claim C8. When the fetch of \<^verbatim>\<open>loadMealPlanForWeek\<close> returns no rows, and when it fails,
  the result is that of \<^verbatim>\<open>generateInitialMealPlan\<close> with the busy flag cleared; on a failure
  the error message is written to the console log, one entry after those already there, and
  the provider's own error field stays empty.
\<close>

theorem load_falls_back:
  "(fetchedNoRows noRows \<longrightarrow>
      loadMealPlanForWeek env orc noRows st =
        (generateInitialMealPlan env orc (st \<lparr> loading := True, error := None \<rparr>))
          \<lparr> loading := False \<rparr>)
   \<and> (fetchFailed failed = Some msg \<longrightarrow>
      loadMealPlanForWeek env orc failed st =
        (generateInitialMealPlan env orc
           (st \<lparr> loading := True, error := None,
                 errorLog := errorLog st @ [(''Error fetching meal plan:'', msg)] \<rparr>))
          \<lparr> loading := False \<rparr>
      \<and> errorLog (loadMealPlanForWeek env orc failed st) =
          errorLog st @ [(''Error fetching meal plan:'', msg)]
      \<and> error (loadMealPlanForWeek env orc failed st) = None)"
proof (intro conjI impI)
  assume "fetchedNoRows noRows"
  then have "fetchMealPlan (env_recipes env) noRows = Inr []"
    by (auto simp: fetchedNoRows_def fetchMealPlan_def or_empty_def
        split: RpcOutcome.splits option.splits)
  then show "loadMealPlanForWeek env orc noRows st =
        (generateInitialMealPlan env orc (st \<lparr> loading := True, error := None \<rparr>))
          \<lparr> loading := False \<rparr>"
    by (simp add: loadMealPlanForWeek_def getMealPlanForWeek_def)
next
  assume "fetchFailed failed = Some msg"
  then have f: "fetchMealPlan (env_recipes env) failed = Inl msg"
    by (auto simp: fetchFailed_def fetchMealPlan_def split: RpcOutcome.splits option.splits)
  then show l: "loadMealPlanForWeek env orc failed st =
        (generateInitialMealPlan env orc
           (st \<lparr> loading := True, error := None,
                 errorLog := errorLog st @ [(''Error fetching meal plan:'', msg)] \<rparr>))
          \<lparr> loading := False \<rparr>"
    by (simp add: loadMealPlanForWeek_def getMealPlanForWeek_def)
  show "errorLog (loadMealPlanForWeek env orc failed st) =
          errorLog st @ [(''Error fetching meal plan:'', msg)]"
    by (simp add: l generate_errorLog)
  show "error (loadMealPlanForWeek env orc failed st) = None"
    by (simp add: l generate_error)
qed

text \<open>On the sample data both outcomes end in the generated plan of three recipes.\<close>

theorem load_falls_back_witness:
  "fetchedNoRows (Resolved None (Some []))
   \<and> fetchFailed (Rejected ''Network request failed'') = Some ''Network request failed''
   \<and> currentMealPlan
        (loadMealPlanForWeek sample_env sample_oracle (Resolved None (Some [])) initialState)
      = sample_plan
   \<and> currentMealPlan
        (loadMealPlanForWeek sample_env sample_oracle (Rejected ''Network request failed'')
           initialState)
      = sample_plan
   \<and> errorLog (loadMealPlanForWeek sample_env sample_oracle (Rejected ''Network request failed'')
        initialState) = [(''Error fetching meal plan:'', ''Network request failed'')]
   \<and> error (loadMealPlanForWeek sample_env sample_oracle (Rejected ''Network request failed'')
        initialState) = None"
proof -
  have e: "fetchedNoRows (Resolved None (Some []))"
    by (simp add: fetchedNoRows_def or_empty_def)
  have f: "fetchFailed (Rejected ''Network request failed'') = Some ''Network request failed''"
    by (simp add: fetchFailed_def)
  from load_falls_back [where noRows = "Resolved None (Some [])" and env = sample_env
      and orc = sample_oracle and st = initialState
      and failed = "Rejected ''Network request failed''" and msg = "''Network request failed''"] e f
  show ?thesis
    by (simp add: sample_generate initialState_def)
qed

end
